theory Spec2Isabelle
  imports Complex_Main
begin

section \<open>Numbers and absent values\<close>

text \<open>
  The analyzer computes on Python floats (double precision). They are modelled as
  \<^typ>\<open>real\<close>: every arithmetic operation is exact, and the rounding of the double
  precision representation is outside the model. The arrays of the thermal simulator
  hold single precision numbers; there the narrowing is part of the model (function
  \<open>float32\<close> below). Python ints are \<^typ>\<open>int\<close>. A value that may be
  \<^verbatim>\<open>None\<close> is an \<^typ>\<open>'a option\<close>.
\<close>

text \<open>
  \<^verbatim>\<open>round(x, ndigits)\<close> on a float: the nearest multiple of \<open>10 ^ -ndigits\<close>, a tie
  going to the even neighbour.
\<close>

definition py_round :: "real \<Rightarrow> nat \<Rightarrow> real" where
  "py_round x ndigits =
     (let y = x * 10 ^ ndigits;
          f = \<lfloor>y\<rfloor>;
          d = y - of_int f
      in of_int (if d < 1 / 2 then f
                 else if 1 / 2 < d then f + 1
                 else if even f then f else f + 1) / 10 ^ ndigits)"

text \<open>
  Truthiness of an optional number, as in \<^verbatim>\<open>if cpt:\<close>: \<^verbatim>\<open>None\<close> is false, and so
  is the number zero.
\<close>

fun py_truthy :: "real option \<Rightarrow> bool" where
  "py_truthy None = False"
| "py_truthy (Some x) = (x \<noteq> 0)"

section \<open>Chemical indices (class CoalSpontaneousAnalyzer)\<close>

text \<open>
  Each method wraps its body in \<^verbatim>\<open>try ... except Exception: return None\<close>. On numbers
  the only operation of these bodies that can raise is a division by zero; where the
  source does not exclude it, the model returns \<open>None\<close> there.
\<close>

definition crossing_point_temperature :: "real \<Rightarrow> real \<Rightarrow> real \<Rightarrow> real \<Rightarrow> real option" where
  "crossing_point_temperature moisture volatile_matter ash fixed_carbon =
     (let total = moisture + volatile_matter + ash + fixed_carbon;
          (moisture, volatile_matter, ash, fixed_carbon) =
            (if total > 100
             then ((moisture / total) * 100, (volatile_matter / total) * 100,
                   (ash / total) * 100, (fixed_carbon / total) * 100)
             else (moisture, volatile_matter, ash, fixed_carbon));
          cpt = 150 + (0.3 * ash) - (0.5 * volatile_matter) + (0.2 * moisture)
                + (0.1 * fixed_carbon)
      in Some (max 120 (min 200 cpt)))"

definition liability_index :: "real \<Rightarrow> real \<Rightarrow> real \<Rightarrow> real option" where
  "liability_index moisture volatile_matter ash =
     (if ash = 0 then None
      else let li = (moisture * volatile_matter) / ash in Some (py_round li 2))"

definition wits_index :: "real \<Rightarrow> real \<Rightarrow> real \<Rightarrow> real \<Rightarrow> real option" where
  "wits_index moisture volatile_matter ash oxygen =
     (if ash + 1 = 0 then None
      else let wits = (moisture + volatile_matter) * oxygen / (ash + 1)
           in Some (py_round wits 2))"

definition olpinski_index :: "real \<Rightarrow> real \<Rightarrow> real \<Rightarrow> real option" where
  "olpinski_index moisture volatile_matter ash =
     (if ash + volatile_matter = 0 then None
      else let oi = moisture / (ash + volatile_matter) in Some (py_round oi 3))"

section \<open>Chemical risk scorer\<close>

text \<open>
  The entries of the \<^verbatim>\<open>risk_factors\<close> list. The source appends fixed messages (or,
  in the thermal scorer, messages formatted with one number); each constructor stands
  for one message and carries the number printed in it.
\<close>

datatype risk_factor =
    Very_High_CPT_Risk
  | High_CPT_Risk
  | Moderate_CPT_Risk
  | Low_CPT_Risk
  | High_Liability_Index_Risk
  | Moderate_Liability_Index_Risk
  | Low_Liability_Index_Risk
  | High_WITS_Index_Risk
  | Moderate_WITS_Index_Risk
  | Low_WITS_Index_Risk
  | High_Ambient_Temperature_Risk
  | Poor_Ventilation_Risk
  | Critical_hot_spots_detected real
  | Dangerous_temperatures_observed real
  | Elevated_temperatures_detected real
  | High_average_temperature real
  | Large_critical_temperature_zone real
  | Moderate_critical_temperature_zone real
  | Multiple_hot_spots_detected int
  | Several_hot_spots_present int

text \<open>
  The dictionary returned by \<^verbatim>\<open>risk_assessment\<close>; the score is an int there and a
  float in the combined assessment of the image path.
\<close>

record 'n risk_result =
  overall_risk :: string
  risk_score :: 'n
  risk_factors :: "risk_factor list"
  color :: string

text \<open>
  The method keeps two running variables, the list \<^verbatim>\<open>risk_factors\<close> and the int
  \<^verbatim>\<open>risk_score\<close>, and updates them in five consecutive blocks. Each block is a
  function on that pair; \<open>risk_assessment\<close> runs them in the order of the source.
\<close>

type_synonym assessment_state = "risk_factor list \<times> int"

text \<open>Block \<^verbatim>\<open>if cpt:\<close> (CPT Risk Assessment).\<close>

definition assess_cpt :: "real option \<Rightarrow> assessment_state \<Rightarrow> assessment_state" where
  "assess_cpt cpt = (\<lambda>(risk_factors, risk_score).
     case cpt of
       None \<Rightarrow> (risk_factors, risk_score)
     | Some c \<Rightarrow>
         if \<not> py_truthy (Some c) then (risk_factors, risk_score)
         else if c < 140 then (risk_factors @ [Very_High_CPT_Risk], risk_score + 40)
         else if c < 150 then (risk_factors @ [High_CPT_Risk], risk_score + 30)
         else if c < 160 then (risk_factors @ [Moderate_CPT_Risk], risk_score + 20)
         else (risk_factors @ [Low_CPT_Risk], risk_score + 10))"

text \<open>Block \<^verbatim>\<open>if li:\<close> (Liability Index Risk Assessment).\<close>

definition assess_li :: "real option \<Rightarrow> assessment_state \<Rightarrow> assessment_state" where
  "assess_li li = (\<lambda>(risk_factors, risk_score).
     case li of
       None \<Rightarrow> (risk_factors, risk_score)
     | Some l \<Rightarrow>
         if \<not> py_truthy (Some l) then (risk_factors, risk_score)
         else if l > 2.0 then (risk_factors @ [High_Liability_Index_Risk], risk_score + 25)
         else if l > 1.0
         then (risk_factors @ [Moderate_Liability_Index_Risk], risk_score + 15)
         else (risk_factors @ [Low_Liability_Index_Risk], risk_score + 5))"

text \<open>Block \<^verbatim>\<open>if wits:\<close> (WITS Index Risk Assessment).\<close>

definition assess_wits :: "real option \<Rightarrow> assessment_state \<Rightarrow> assessment_state" where
  "assess_wits wits = (\<lambda>(risk_factors, risk_score).
     case wits of
       None \<Rightarrow> (risk_factors, risk_score)
     | Some w \<Rightarrow>
         if \<not> py_truthy (Some w) then (risk_factors, risk_score)
         else if w > 5.0 then (risk_factors @ [High_WITS_Index_Risk], risk_score + 20)
         else if w > 2.0 then (risk_factors @ [Moderate_WITS_Index_Risk], risk_score + 10)
         else (risk_factors @ [Low_WITS_Index_Risk], risk_score + 5))"

text \<open>The two blocks of the environmental factors.\<close>

definition assess_ambient :: "real \<Rightarrow> assessment_state \<Rightarrow> assessment_state" where
  "assess_ambient ambient_temp = (\<lambda>(risk_factors, risk_score).
     if ambient_temp > 30
     then (risk_factors @ [High_Ambient_Temperature_Risk], risk_score + 15)
     else (risk_factors, risk_score))"

definition assess_ventilation :: "real \<Rightarrow> assessment_state \<Rightarrow> assessment_state" where
  "assess_ventilation ventilation_rate = (\<lambda>(risk_factors, risk_score).
     if ventilation_rate < 0.5
     then (risk_factors @ [Poor_Ventilation_Risk], risk_score + 15)
     else (risk_factors, risk_score))"

text \<open>The method; the olpinski index \<open>oi\<close> is a parameter that the body never reads.\<close>

definition risk_assessment ::
  "real option \<Rightarrow> real option \<Rightarrow> real option \<Rightarrow> real option \<Rightarrow> real \<Rightarrow> real
     \<Rightarrow> int risk_result" where
  "risk_assessment cpt li wits oi ambient_temp ventilation_rate =
     (let (risk_factors, risk_score) =
            assess_ventilation ventilation_rate
              (assess_ambient ambient_temp
                 (assess_wits wits (assess_li li (assess_cpt cpt ([], 0)))));
          (overall_risk, color) =
            (if risk_score \<ge> 80 then (''CRITICAL'', ''danger'')
             else if risk_score \<ge> 60 then (''HIGH'', ''warning'')
             else if risk_score \<ge> 40 then (''MODERATE'', ''info'')
             else (''LOW'', ''success''))
      in \<lparr>overall_risk = overall_risk, risk_score = risk_score,
          risk_factors = risk_factors, color = color\<rparr>)"

section \<open>Thermal risk scorer (ThermalSimulator.assess_thermal_risk)\<close>

record temp_stats =
  min_temp :: real
  max_temp :: real
  avg_temp :: real
  hot_spot_count :: int
  critical_area_percentage :: real

record thermal_risk =
  thermal_risk_score :: int
  thermal_risk_factors :: "risk_factor list"
  temperature_statistics :: temp_stats

text \<open>The temperature map is a parameter of the method and is not read by it.\<close>

definition assess_thermal_risk :: "real list list \<Rightarrow> temp_stats \<Rightarrow> thermal_risk" where
  "assess_thermal_risk temperature_map stats =
     (let (risk_factors, thermal_risk_score) = ([], 0);
          max_temp = max_temp stats;
          (risk_factors, thermal_risk_score) =
            (if max_temp > 120
             then (risk_factors @ [Critical_hot_spots_detected max_temp],
                   thermal_risk_score + 40)
             else if max_temp > 80
             then (risk_factors @ [Dangerous_temperatures_observed max_temp],
                   thermal_risk_score + 30)
             else if max_temp > 50
             then (risk_factors @ [Elevated_temperatures_detected max_temp],
                   thermal_risk_score + 20)
             else (risk_factors, thermal_risk_score));
          avg_temp = avg_temp stats;
          (risk_factors, thermal_risk_score) =
            (if avg_temp > 45
             then (risk_factors @ [High_average_temperature avg_temp],
                   thermal_risk_score + 15)
             else (risk_factors, thermal_risk_score));
          critical_percentage = critical_area_percentage stats;
          (risk_factors, thermal_risk_score) =
            (if critical_percentage > 20
             then (risk_factors @ [Large_critical_temperature_zone critical_percentage],
                   thermal_risk_score + 20)
             else if critical_percentage > 10
             then (risk_factors @ [Moderate_critical_temperature_zone critical_percentage],
                   thermal_risk_score + 10)
             else (risk_factors, thermal_risk_score));
          hot_spots = hot_spot_count stats;
          (risk_factors, thermal_risk_score) =
            (if hot_spots > 10
             then (risk_factors @ [Multiple_hot_spots_detected hot_spots],
                   thermal_risk_score + 15)
             else if hot_spots > 5
             then (risk_factors @ [Several_hot_spots_present hot_spots],
                   thermal_risk_score + 8)
             else (risk_factors, thermal_risk_score))
      in \<lparr>thermal_risk_score = min thermal_risk_score 100,
          thermal_risk_factors = risk_factors,
          temperature_statistics = stats\<rparr>)"

section \<open>Combined assessment of the image path (analyze_thermal_image)\<close>

record combined_risk_result = "real risk_result" +
  standard_risk_score :: int
  combined_thermal_risk_score :: int

text \<open>
  The part of the request handler that merges the two scores. Python's \<^verbatim>\<open>/\<close> on two
  ints is true division, so the combined score is a float. The key
  \<^verbatim>\<open>thermal_risk_score\<close> of the combined dictionary is the field
  \<open>combined_thermal_risk_score\<close> here, the name being taken by the thermal scorer's
  result.
\<close>

definition combined_risk_assessment :: "int risk_result \<Rightarrow> thermal_risk \<Rightarrow> combined_risk_result" where
  "combined_risk_assessment standard_risk thermal_risk =
     (let combined_risk_score =
            real_of_int (risk_score standard_risk + thermal_risk_score thermal_risk) / 2;
          all_risk_factors = risk_factors standard_risk @ thermal_risk_factors thermal_risk;
          (overall_risk, color) =
            (if combined_risk_score \<ge> 80 then (''CRITICAL'', ''danger'')
             else if combined_risk_score \<ge> 60 then (''HIGH'', ''warning'')
             else if combined_risk_score \<ge> 40 then (''MODERATE'', ''info'')
             else (''LOW'', ''success''))
      in \<lparr>overall_risk = overall_risk, risk_score = combined_risk_score,
          risk_factors = all_risk_factors, color = color,
          standard_risk_score = risk_score standard_risk,
          combined_thermal_risk_score = thermal_risk_score thermal_risk\<rparr>)"

section \<open>Thermal simulator: inputs\<close>

text \<open>The dictionary built by \<^verbatim>\<open>analyze_image_features\<close>.\<close>

record image_features =
  avg_brightness :: real
  brightness_std :: real
  texture_variance :: real
  hue_mean :: real
  saturation_mean :: real
  value_mean :: real
  edge_density :: real
  avg_particle_size :: real
  particle_count :: int

text \<open>The dictionary built by \<^verbatim>\<open>generate_environmental_parameters\<close>.\<close>

record env_params =
  ambient_temperature :: real
  relative_humidity :: real
  wind_speed :: real
  oxygen_content :: real
  atmospheric_pressure :: real
  pile_height :: real
  storage_duration :: int

section \<open>Coal property synthesizer (generate_coal_properties_from_image)\<close>

record coal_properties =
  moisture :: real
  volatile_matter :: real
  ash :: real
  fixed_carbon :: real

text \<open>
  The generator is not seeded, so the result of every \<^verbatim>\<open>random.uniform\<close> call of the
  function is an input of the model, one field per call site (a draw whose call site
  is not reached is not read). \<^verbatim>\<open>random.uniform(a, b)\<close> returns a value between
  \<open>a\<close> and \<open>b\<close>; \<open>valid_draws\<close> says so for each call site.
\<close>

record property_draws =
  base_moisture :: real
  base_volatile_matter :: real
  base_ash :: real
  base_fixed_carbon :: real
  dark_fixed_carbon :: real
  dark_volatile_matter :: real
  rough_moisture :: real
  rough_ash :: real
  fine_volatile_matter :: real
  humid_moisture :: real
  drying_moisture :: real
  residue_ash :: real

definition uniform_range :: "real \<Rightarrow> real \<Rightarrow> real \<Rightarrow> bool" where
  "uniform_range a b x = (a \<le> x \<and> x \<le> b)"

definition valid_draws :: "property_draws \<Rightarrow> bool" where
  "valid_draws d =
     (uniform_range 6.0 15.0 (base_moisture d) \<and>
      uniform_range 25.0 45.0 (base_volatile_matter d) \<and>
      uniform_range 8.0 25.0 (base_ash d) \<and>
      uniform_range 35.0 60.0 (base_fixed_carbon d) \<and>
      uniform_range 2 8 (dark_fixed_carbon d) \<and>
      uniform_range 1 5 (dark_volatile_matter d) \<and>
      uniform_range 1 3 (rough_moisture d) \<and>
      uniform_range 0.5 2.0 (rough_ash d) \<and>
      uniform_range 2 6 (fine_volatile_matter d) \<and>
      uniform_range 1 4 (humid_moisture d) \<and>
      uniform_range 0.5 2.0 (drying_moisture d) \<and>
      uniform_range 0.2 1.0 (residue_ash d))"

text \<open>Base values and the adjustments by image features and environment.\<close>

definition sample_properties ::
  "image_features option \<Rightarrow> env_params \<Rightarrow> property_draws \<Rightarrow> coal_properties" where
  "sample_properties features env d =
     (let properties = \<lparr>moisture = base_moisture d,
                         volatile_matter = base_volatile_matter d,
                         ash = base_ash d,
                         fixed_carbon = base_fixed_carbon d\<rparr>;
          properties =
            (case features of
               None \<Rightarrow> properties
             | Some image_features \<Rightarrow>
                 (let properties =
                        (if avg_brightness image_features < 60
                         then properties
                                \<lparr>fixed_carbon := fixed_carbon properties + dark_fixed_carbon d,
                                 volatile_matter :=
                                   volatile_matter properties + dark_volatile_matter d\<rparr>
                         else properties);
                      properties =
                        (if texture_variance image_features > 600
                         then properties
                                \<lparr>moisture := moisture properties + rough_moisture d,
                                 ash := ash properties + rough_ash d\<rparr>
                         else properties);
                      properties =
                        (if avg_particle_size image_features < 50
                         then properties
                                \<lparr>volatile_matter :=
                                   volatile_matter properties + fine_volatile_matter d\<rparr>
                         else properties)
                  in properties));
          properties =
            (if relative_humidity env > 70
             then properties\<lparr>moisture := moisture properties + humid_moisture d\<rparr>
             else properties);
          properties =
            (if storage_duration env > 15
             then properties\<lparr>moisture := moisture properties - drying_moisture d,
                             ash := ash properties + residue_ash d\<rparr>
             else properties)
      in properties)"

definition properties_total :: "coal_properties \<Rightarrow> real" where
  "properties_total properties =
     moisture properties + volatile_matter properties + ash properties
     + fixed_carbon properties"

text \<open>The normalization step: every value is scaled by \<open>100 / total\<close> when \<open>total > 0\<close>.\<close>

definition normalize_properties :: "coal_properties \<Rightarrow> coal_properties" where
  "normalize_properties properties =
     (let total = properties_total properties
      in if total > 0
         then (let factor = 100.0 / total
               in \<lparr>moisture = moisture properties * factor,
                   volatile_matter = volatile_matter properties * factor,
                   ash = ash properties * factor,
                   fixed_carbon = fixed_carbon properties * factor\<rparr>)
         else properties)"

text \<open>The final bounds.\<close>

definition bound_properties :: "coal_properties \<Rightarrow> coal_properties" where
  "bound_properties properties =
     \<lparr>moisture = max 1.0 (min 20.0 (moisture properties)),
      volatile_matter = max 15.0 (min 50.0 (volatile_matter properties)),
      ash = max 5.0 (min 35.0 (ash properties)),
      fixed_carbon = max 25.0 (min 70.0 (fixed_carbon properties))\<rparr>"

text \<open>
  The whole function. Its \<^verbatim>\<open>except\<close> branch returns the fixed properties
  10 / 35 / 15 / 40; on inputs that have every field, as the records here do, no
  statement of the body raises (the only division is guarded by \<open>total > 0\<close>), so the
  branch is not taken.
\<close>

definition generate_coal_properties_from_image ::
  "image_features option \<Rightarrow> env_params \<Rightarrow> property_draws \<Rightarrow> coal_properties" where
  "generate_coal_properties_from_image features env d =
     bound_properties (normalize_properties (sample_properties features env d))"

section \<open>Thermal field simulator (simulate_thermal_distribution)\<close>


subsection \<open>Single precision\<close>






subsection \<open>The simulation\<close>







section \<open>The statements of the specification\<close>

text \<open>
  The definitions of this section follow the words of the specification, not the
  code; the theorems below compare the code with them.
\<close>

text \<open>Category and display color of a score: 80 and above, 60 to 80, 40 to 60, below.\<close>

definition spec_category :: "real \<Rightarrow> string \<times> string" where
  "spec_category s =
     (if 80 \<le> s then (''CRITICAL'', ''danger'')
      else if 60 \<le> s \<and> s < 80 then (''HIGH'', ''warning'')
      else if 40 \<le> s \<and> s < 60 then (''MODERATE'', ''info'')
      else (''LOW'', ''success''))"

text \<open>The band tables of the chemical scorer; an absent index contributes 0.\<close>

definition spec_cpt_points :: "real option \<Rightarrow> int" where
  "spec_cpt_points cpt =
     (case cpt of
        None \<Rightarrow> 0
      | Some c \<Rightarrow> if c < 140 then 40 else if c < 150 then 30 else if c < 160 then 20 else 10)"

definition spec_li_points :: "real option \<Rightarrow> int" where
  "spec_li_points li =
     (case li of
        None \<Rightarrow> 0
      | Some l \<Rightarrow> if l > 2.0 then 25 else if l > 1.0 then 15 else 5)"

definition spec_wits_points :: "real option \<Rightarrow> int" where
  "spec_wits_points wits =
     (case wits of
        None \<Rightarrow> 0
      | Some w \<Rightarrow> if w > 5.0 then 20 else if w > 2.0 then 10 else 5)"

definition spec_chemical_score ::
  "real option \<Rightarrow> real option \<Rightarrow> real option \<Rightarrow> real \<Rightarrow> real \<Rightarrow> int" where
  "spec_chemical_score cpt li wits ambient_temp ventilation_rate =
     spec_cpt_points cpt + spec_li_points li + spec_wits_points wits
     + (if ambient_temp > 30 then 15 else 0)
     + (if ventilation_rate < 0.5 then 15 else 0)"

text \<open>The band tables of the thermal scorer, before the clamp.\<close>

definition spec_thermal_band_sum :: "temp_stats \<Rightarrow> int" where
  "spec_thermal_band_sum stats =
     (if max_temp stats > 120 then 40
      else if max_temp stats > 80 then 30
      else if max_temp stats > 50 then 20 else 0)
     + (if avg_temp stats > 45 then 15 else 0)
     + (if critical_area_percentage stats > 20 then 20
        else if critical_area_percentage stats > 10 then 10 else 0)
     + (if hot_spot_count stats > 10 then 15
        else if hot_spot_count stats > 5 then 8 else 0)"

text \<open>
  The crossing-point formula on values rescaled to sum to 100 when their sum exceeds
  100, and on the raw values otherwise.
\<close>

definition spec_rescaled :: "real \<Rightarrow> real \<Rightarrow> real \<Rightarrow> real \<Rightarrow> real \<Rightarrow> real" where
  "spec_rescaled m v a f x = (if m + v + a + f > 100 then x * (100 / (m + v + a + f)) else x)"

definition spec_cpt_formula :: "real \<Rightarrow> real \<Rightarrow> real \<Rightarrow> real \<Rightarrow> real" where
  "spec_cpt_formula m v a f =
     150 + 0.3 * spec_rescaled m v a f a - 0.5 * spec_rescaled m v a f v
     + 0.2 * spec_rescaled m v a f m + 0.1 * spec_rescaled m v a f f"

section \<open>Example inputs\<close>

text \<open>
  A dark sample of fine particles (both adjustments of the volatile matter apply) in
  a mild environment, with every draw inside its range.
\<close>

definition dark_fine_features :: image_features where
  "dark_fine_features =
     \<lparr>avg_brightness = 50, brightness_std = 10, texture_variance = 100, hue_mean = 0,
      saturation_mean = 0, value_mean = 50, edge_density = 0.1, avg_particle_size = 10,
      particle_count = 20\<rparr>"

definition example_env :: env_params where
  "example_env =
     \<lparr>ambient_temperature = 25, relative_humidity = 50, wind_speed = 1,
      oxygen_content = 20.9, atmospheric_pressure = 100, pile_height = 3,
      storage_duration = 1\<rparr>"

definition example_draws :: property_draws where
  "example_draws =
     \<lparr>base_moisture = 6, base_volatile_matter = 45, base_ash = 8, base_fixed_carbon = 35,
      dark_fixed_carbon = 2, dark_volatile_matter = 5, rough_moisture = 1, rough_ash = 1,
      fine_volatile_matter = 6, humid_moisture = 1, drying_moisture = 1,
      residue_ash = 1\<rparr>"






section \<open>Chemical indices: the worked scenarios\<close>

text \<open>
  Claim C6. For moisture 10, volatile matter 35, ash 15 and fixed carbon 40 (a total of
  100, so nothing is rescaled), the crossing-point temperature is 143.0, the
  liability index 23.33 and the olpinski index 0.2.
\<close>

theorem scenario_1_indices:
  "crossing_point_temperature 10 35 15 40 = Some 143.0
   \<and> liability_index 10 35 15 = Some 23.33
   \<and> olpinski_index 10 35 15 = Some 0.2"
  by (simp add: crossing_point_temperature_def liability_index_def olpinski_index_def
        py_round_def)

text \<open>
  Claim C7, as stated: the WITS index of moisture 10, volatile matter 35, ash 15 and
  oxygen 20.9 would be 587.8. It is not: \<open>(10 + 35) * 20.9 / (15 + 1) = 58.78125\<close>.
\<close>

theorem scenario_1_wits_counterexample:
  "wits_index 10 35 15 20.9 \<noteq> Some 587.8"
  by (simp add: wits_index_def py_round_def)

text \<open>
  Claim C7, amended. For moisture 10, volatile matter 35, ash 15 and oxygen 20.9 the
  WITS index, rounded to two decimal places, is 58.78.
\<close>

theorem scenario_1_wits:
  "wits_index 10 35 15 20.9 = Some 58.78"
  by (simp add: wits_index_def py_round_def)

text \<open>
  Claim C8. With ash equal to 0 the liability index is \<open>None\<close>, whatever the moisture
  and the volatile matter: the guard returns before the division.
\<close>

theorem liability_index_zero_ash:
  "liability_index m v 0 = None"
  by (simp add: liability_index_def)

text \<open>
  Claim C10. The crossing-point temperature is always defined and equals the formula
  of the rescaled values clamped to \<open>[120, 200]\<close>; so it lies in that interval.
\<close>

theorem cpt_clamped_formula:
  "crossing_point_temperature m v a f = Some (max 120 (min 200 (spec_cpt_formula m v a f)))
   \<and> (\<exists>c. crossing_point_temperature m v a f = Some c \<and> 120 \<le> c \<and> c \<le> 200)"
  by (simp add: crossing_point_temperature_def spec_cpt_formula_def spec_rescaled_def Let_def)

section \<open>Chemical risk scorer: the score\<close>

text \<open>The score is the second component of the state after the five blocks.\<close>

lemma risk_score_state:
  "risk_score (risk_assessment cpt li wits oi ambient_temp ventilation_rate)
     = snd (assess_ventilation ventilation_rate
              (assess_ambient ambient_temp
                 (assess_wits wits (assess_li li (assess_cpt cpt ([], 0))))))"
  by (simp add: risk_assessment_def split_beta Let_def)

text \<open>Each block adds the points of its band, provided the index is not the number 0.\<close>

lemma assess_cpt_score:
  "cpt \<noteq> Some 0 \<Longrightarrow> snd (assess_cpt cpt st) = snd st + spec_cpt_points cpt"
  by (cases st) (simp add: assess_cpt_def spec_cpt_points_def split: option.splits)

lemma assess_li_score:
  "li \<noteq> Some 0 \<Longrightarrow> snd (assess_li li st) = snd st + spec_li_points li"
  by (cases st) (simp add: assess_li_def spec_li_points_def split: option.splits)

lemma assess_wits_score:
  "wits \<noteq> Some 0 \<Longrightarrow> snd (assess_wits wits st) = snd st + spec_wits_points wits"
  by (cases st) (simp add: assess_wits_def spec_wits_points_def split: option.splits)

lemma assess_ambient_score:
  "snd (assess_ambient ambient_temp st) = snd st + (if ambient_temp > 30 then 15 else 0)"
  by (cases st) (simp add: assess_ambient_def)

lemma assess_ventilation_score:
  "snd (assess_ventilation ventilation_rate st)
     = snd st + (if ventilation_rate < 0.5 then 15 else 0)"
  by (cases st) (simp add: assess_ventilation_def)

text \<open>
  An index whose value is the number 0 is skipped like an absent one: the guard
  \<^verbatim>\<open>if li:\<close> tests truthiness.
\<close>

lemma assess_zero_skipped:
  "assess_cpt (Some 0) st = st \<and> assess_li (Some 0) st = st \<and> assess_wits (Some 0) st = st"
  by (cases st) (simp add: assess_cpt_def assess_li_def assess_wits_def)

text \<open>
  Away from the value 0 the score is the sum of the band tables and the two
  environment bonuses.
\<close>

lemma chemical_score_nonzero:
  "cpt \<noteq> Some 0 \<Longrightarrow> li \<noteq> Some 0 \<Longrightarrow> wits \<noteq> Some 0 \<Longrightarrow>
   risk_score (risk_assessment cpt li wits oi ambient_temp ventilation_rate)
     = spec_chemical_score cpt li wits ambient_temp ventilation_rate"
  by (simp add: risk_score_state assess_ventilation_score assess_ambient_score
        assess_wits_score assess_li_score assess_cpt_score spec_chemical_score_def)

text \<open>
  Claim C2 says that every present index, a computed 0 included, contributes the
  points of its band. The code at a computed 0: moisture 0, volatile matter 35,
  ash 15, fixed carbon 50 and oxygen 20.9 give the indices 142, 0, 45.72 and 0; the
  liability index 0 is present and belongs to the band \<open>\<le> 1.0\<close> (5 points), so the
  band tables give 30 + 5 + 20 = 55, while the method returns 50.
\<close>

theorem chemical_score_zero_index:
  "crossing_point_temperature 0 35 15 50 = Some 142
   \<and> liability_index 0 35 15 = Some 0
   \<and> wits_index 0 35 15 20.9 = Some 45.72
   \<and> risk_score (risk_assessment (Some 142) (Some 0) (Some 45.72) (Some 0) 25 1) = 50
   \<and> spec_chemical_score (Some 142) (Some 0) (Some 45.72) 25 1 = 55"
  by (simp add: crossing_point_temperature_def liability_index_def wits_index_def
        py_round_def risk_assessment_def
        assess_cpt_def assess_li_def assess_wits_def assess_ambient_def
        assess_ventilation_def
        spec_chemical_score_def spec_cpt_points_def spec_li_points_def spec_wits_points_def)

text \<open>
  Claim C9. With every index absent, the ambient temperature at most 30 and the
  ventilation at least 0.5, the chemical scorer returns a result: score 0, category
  LOW, no risk factor.
\<close>

theorem all_indices_missing:
  "ambient_temp \<le> 30 \<Longrightarrow> 0.5 \<le> ventilation_rate \<Longrightarrow>
   risk_assessment None None None None ambient_temp ventilation_rate
     = \<lparr>overall_risk = ''LOW'', risk_score = 0, risk_factors = [], color = ''success''\<rparr>"
  by (simp add: risk_assessment_def assess_cpt_def assess_li_def assess_wits_def
        assess_ambient_def assess_ventilation_def)

text \<open>Claim C9 at the default environment: ambient temperature 25, ventilation 1.0.\<close>

theorem all_indices_missing_witness:
  "(25::real) \<le> 30 \<and> (0.5::real) \<le> 1
   \<and> risk_score (risk_assessment None None None None 25 1) = 0
   \<and> overall_risk (risk_assessment None None None None 25 1) = ''LOW''"
  using all_indices_missing [of 25 1] by simp

section \<open>Combiner and categories\<close>

text \<open>
  Claim C3. The combined score is half the sum of the chemical and the thermal score,
  and both the chemical scorer and the combined assessment give the category and the
  color of their score by the same bands.
\<close>

theorem category_bands:
  "risk_score (combined_risk_assessment sr tr)
     = (real_of_int (risk_score sr) + real_of_int (thermal_risk_score tr)) / 2
   \<and> (overall_risk (combined_risk_assessment sr tr), color (combined_risk_assessment sr tr))
       = spec_category (risk_score (combined_risk_assessment sr tr))
   \<and> (overall_risk (risk_assessment cpt li wits oi ambient_temp ventilation_rate),
      color (risk_assessment cpt li wits oi ambient_temp ventilation_rate))
       = spec_category
           (real_of_int (risk_score
              (risk_assessment cpt li wits oi ambient_temp ventilation_rate)))"
  by (simp add: combined_risk_assessment_def risk_assessment_def spec_category_def Let_def
        split_beta)

section \<open>Thermal risk scorer: the score\<close>

text \<open>
  Claim C4. The thermal risk score is the sum of the four band contributions, clamped
  from above to 100; it lies between 0 and 100.
\<close>

theorem thermal_score_bands:
  "thermal_risk_score (assess_thermal_risk temperature_map stats)
     = min (spec_thermal_band_sum stats) 100
   \<and> 0 \<le> thermal_risk_score (assess_thermal_risk temperature_map stats)
   \<and> thermal_risk_score (assess_thermal_risk temperature_map stats) \<le> 100"
  by (simp add: assess_thermal_risk_def spec_thermal_band_sum_def Let_def)

section \<open>Coal property synthesizer: normalization and bounds\<close>

text \<open>With draws inside their ranges the sampled total is positive.\<close>

lemma sample_total_positive:
  assumes "valid_draws d"
  shows "0 < properties_total (sample_properties features env d)"
  using assms
  by (cases features)
     (simp_all add: valid_draws_def uniform_range_def sample_properties_def
        properties_total_def Let_def)

text \<open>A positive total is scaled to exactly 100.\<close>

lemma normalize_total:
  assumes "0 < properties_total p"
  shows "properties_total (normalize_properties p) = 100"
proof -
  let ?t = "properties_total p"
  from assms have nz: "?t \<noteq> 0" by simp
  have "properties_total (normalize_properties p)
          = moisture p * (100 / ?t) + volatile_matter p * (100 / ?t)
            + ash p * (100 / ?t) + fixed_carbon p * (100 / ?t)"
    using assms by (simp add: normalize_properties_def Let_def properties_total_def)
  also have "\<dots> = ?t * (100 / ?t)"
    by (simp only: properties_total_def distrib_right)
  also have "\<dots> = 100" using nz by simp
  finally show ?thesis .
qed

lemma bound_properties_ranges:
  "1 \<le> moisture (bound_properties p) \<and> moisture (bound_properties p) \<le> 20
   \<and> 15 \<le> volatile_matter (bound_properties p) \<and> volatile_matter (bound_properties p) \<le> 50
   \<and> 5 \<le> ash (bound_properties p) \<and> ash (bound_properties p) \<le> 35
   \<and> 25 \<le> fixed_carbon (bound_properties p) \<and> fixed_carbon (bound_properties p) \<le> 70"
  by (simp add: bound_properties_def)

text \<open>
  The example: the sampled values 6, 56, 8 and 37 sum to 107; after the scaling the
  volatile matter is \<open>5600 / 107 > 50\<close> and is cut to 50, so the final sum is below 100.
\<close>

lemma clamped_sum_example:
  "valid_draws example_draws
   \<and> generate_coal_properties_from_image (Some dark_fine_features) example_env example_draws
       = \<lparr>moisture = 600 / 107, volatile_matter = 50, ash = 800 / 107,
          fixed_carbon = 3700 / 107\<rparr>"
  by (simp add: valid_draws_def uniform_range_def example_draws_def dark_fine_features_def
        example_env_def generate_coal_properties_from_image_def sample_properties_def
        normalize_properties_def bound_properties_def properties_total_def Let_def)

text \<open>
  Claim C5. With every random draw inside the range of its call site, the four
  properties sum to 100 right after the normalization step, and the returned
  properties lie in their bounds: moisture in \<open>[1, 20]\<close>, volatile matter in
  \<open>[15, 50]\<close>, ash in \<open>[5, 35]\<close>, fixed carbon in \<open>[25, 70]\<close>. The returned properties
  are not scaled again: for some input their sum is not 100.
\<close>

theorem coal_properties_sum_and_bounds:
  "valid_draws d \<Longrightarrow>
   properties_total (normalize_properties (sample_properties features env d)) = 100
   \<and> 1 \<le> moisture (generate_coal_properties_from_image features env d)
   \<and> moisture (generate_coal_properties_from_image features env d) \<le> 20
   \<and> 15 \<le> volatile_matter (generate_coal_properties_from_image features env d)
   \<and> volatile_matter (generate_coal_properties_from_image features env d) \<le> 50
   \<and> 5 \<le> ash (generate_coal_properties_from_image features env d)
   \<and> ash (generate_coal_properties_from_image features env d) \<le> 35
   \<and> 25 \<le> fixed_carbon (generate_coal_properties_from_image features env d)
   \<and> fixed_carbon (generate_coal_properties_from_image features env d) \<le> 70
   \<and> (\<exists>features' env' d'. valid_draws d'
         \<and> properties_total (generate_coal_properties_from_image features' env' d') \<noteq> 100)"
proof -
  assume valid: "valid_draws d"
  have total: "properties_total (normalize_properties (sample_properties features env d)) = 100"
    using valid by (simp add: normalize_total sample_total_positive)
  have differs: "\<exists>features' env' d'. valid_draws d'
         \<and> properties_total (generate_coal_properties_from_image features' env' d') \<noteq> 100"
  proof (intro exI conjI)
    show "valid_draws example_draws" using clamped_sum_example by simp
    show "properties_total
            (generate_coal_properties_from_image (Some dark_fine_features) example_env
               example_draws) \<noteq> 100"
      using clamped_sum_example by (simp add: properties_total_def)
  qed
  from total differs bound_properties_ranges
    [of "normalize_properties (sample_properties features env d)"]
  show ?thesis by (simp add: generate_coal_properties_from_image_def)
qed

text \<open>Claim C5 at the example: the normalized sum is 100, the returned sum is not.\<close>

theorem coal_properties_sum_and_bounds_witness:
  "valid_draws example_draws
   \<and> properties_total
       (normalize_properties (sample_properties (Some dark_fine_features) example_env
          example_draws)) = 100
   \<and> volatile_matter
       (generate_coal_properties_from_image (Some dark_fine_features) example_env
          example_draws) = 50"
proof -
  have valid: "valid_draws example_draws" using clamped_sum_example by simp
  from coal_properties_sum_and_bounds [OF valid, of "Some dark_fine_features" example_env]
    valid clamped_sum_example
  show ?thesis by simp
qed

section \<open>Single precision rounding\<close>





























section \<open>Thermal field simulator: the temperature bounds\<close>






end
